theory Spec2Isabelle
  imports Complex_Main "HOL-Library.Word"
begin

section \<open>Numbers of the program\<close>

text \<open>
  The C \<open>int\<close> arguments of \<open>calculate_intensity\<close> are 32-bit words: \<open>*\<close> and \<open>+\<close>
  wrap around and \<open>sint\<close> reads the two's complement value, so the product
  \<open>dx * dx\<close> of line 161 is taken modulo \<open>2 ^ 32\<close> before it is converted.

  A \<open>double\<close> is either a finite number, modelled by the real it stands for, or
  \<open>NaN\<close>. The arithmetic is exact: rounding is not modelled, so where a scaled intensity
  lies within rounding distance of a half, or a movement within rounding distance of a
  threshold, the compiled program can differ from these definitions by one level. The
  inputs evaluated below are not of that kind: their movements are integers, and their
  quotients of logarithms are \<open>0 / 0\<close>, \<open>1 / 2\<close> and \<open>10 / 16\<close>. \<open>NaN\<close> stands for every value that is not a finite number: the
  square root of a negative number, the logarithm of a number that is not positive and a
  quotient with divisor zero. Comparisons with \<open>NaN\<close> are false, arithmetic on it gives
  \<open>NaN\<close>, and its conversion to \<open>int\<close> is undefined in C, which the model returns as a
  fault. In \<open>calculate_intensity\<close> the only value that is compared is the movement, a
  square root of a converted \<open>int\<close>, which is a finite number or \<open>NaN\<close>; every other
  value flows into the cast of line 185, where an infinity is as undefined as a \<open>NaN\<close>.
  The thresholds and the base of the logarithm are finite numbers.

  A compiled program does not stop at an undefined conversion: the conversion instruction
  leaves some \<open>int\<close> (the smallest one on x86-64) and the program goes on with it.
  \<open>cast_on p\<close> is the cast on a machine that leaves \<open>p\<close>; what is proved for every
  \<open>p\<close> holds whatever the machine leaves.
\<close>

datatype double = NaN | Num real

datatype fault = Undefined_conversion

definition double_of_int :: "32 word \<Rightarrow> double" where
  "double_of_int w = Num (real_of_int (sint w))"

fun sqrt_d :: "double \<Rightarrow> double" where
  "sqrt_d NaN = NaN"
| "sqrt_d (Num x) = (if x < 0 then NaN else Num (sqrt x))"

fun log_d :: "double \<Rightarrow> double" where
  "log_d NaN = NaN"
| "log_d (Num x) = (if x \<le> 0 then NaN else Num (ln x))"

fun div_d :: "double \<Rightarrow> double \<Rightarrow> double" where
  "div_d (Num x) (Num y) = (if y = 0 then NaN else Num (x / y))"
| "div_d _ _ = NaN"

fun mul_d :: "double \<Rightarrow> double \<Rightarrow> double" where
  "mul_d (Num x) (Num y) = Num (x * y)"
| "mul_d _ _ = NaN"

fun add_d :: "double \<Rightarrow> double \<Rightarrow> double" where
  "add_d (Num x) (Num y) = Num (x + y)"
| "add_d _ _ = NaN"

fun lt_d :: "double \<Rightarrow> double \<Rightarrow> bool" where
  "lt_d (Num x) (Num y) = (x < y)"
| "lt_d _ _ = False"

fun gt_d :: "double \<Rightarrow> double \<Rightarrow> bool" where
  "gt_d (Num x) (Num y) = (x > y)"
| "gt_d _ _ = False"

definition trunc :: "real \<Rightarrow> int" where
  \<comment> \<open>rounding towards zero, as a C cast does\<close>
  "trunc x = (if 0 \<le> x then \<lfloor>x\<rfloor> else \<lceil>x\<rceil>)"

fun int_of_double :: "double \<Rightarrow> fault + int" where
  \<comment> \<open>the cast \<open>(int)\<close> of line 185: defined when the truncated value fits an \<open>int\<close>\<close>
  "int_of_double NaN = Inl Undefined_conversion"
| "int_of_double (Num x) =
     (if - (2 ^ 31) \<le> trunc x \<and> trunc x \<le> 2 ^ 31 - 1 then Inr (trunc x)
      else Inl Undefined_conversion)"

definition cast_on :: "int \<Rightarrow> double \<Rightarrow> int" where
  \<comment> \<open>the cast \<open>(int)\<close> of line 185 where an undefined conversion leaves \<open>p\<close>\<close>
  "cast_on p d = (case int_of_double d of Inl e \<Rightarrow> p | Inr i \<Rightarrow> i)"

section \<open>Configuration and global state\<close>

definition NUM_INTENSITY_LEVELS :: int where
  "NUM_INTENSITY_LEVELS = 10"

text \<open>
  The statics that \<open>main\<close> sets from the command line before \<open>monitor_device\<close> runs and
  that nothing writes afterwards (lines 41 to 47).
\<close>

record config =
  sound_directory :: string
  min_movement_threshold :: real
  max_movement_threshold :: real
  log_base :: real
  no_sound :: bool

definition default_config :: config where
  \<comment> \<open>\<open>DEFAULT_SOUND_DIR\<close>, \<open>DEFAULT_MIN_THRESHOLD\<close>, \<open>DEFAULT_MAX_THRESHOLD\<close>, \<open>DEFAULT_LOG_BASE\<close>\<close>
  "default_config =
     \<lparr>sound_directory = ''moans'', min_movement_threshold = 1, max_movement_threshold = 100,
      log_base = 2, no_sound = False\<rparr>"

definition valid_config :: "config \<Rightarrow> bool" where
  \<comment> \<open>the three checks of \<open>main\<close>, lines 416 to 427\<close>
  "valid_config cfg =
     (\<not> min_movement_threshold cfg \<le> 0
      \<and> \<not> max_movement_threshold cfg \<le> min_movement_threshold cfg
      \<and> \<not> log_base cfg \<le> 1)"

text \<open>
  \<open>struct debug_stats\<close>. The array \<open>intensity_counts\<close> has the eleven cells \<open>0..10\<close>; it is
  a function of the index, and the only write to it (line 193) is at a clamped index.
  \<open>long\<close> is 64 bits wide.
\<close>

record debug_stats =
  intensity_counts :: "nat \<Rightarrow> 64 word"
  total_movements :: "64 word"
  last_raw_movement :: double
  last_scaled_value :: double
  enabled :: bool

text \<open>What the program writes to its terminal, and the commands it hands to \<open>system\<close>.\<close>

datatype command = Aplay string int

datatype message =
    Below_threshold double
  | Above_max_threshold double int
  | Movement_scaled double double int
  | Playing_from string int
  | Executing command
  | Playback_disabled string int
  | Received_sigint
  | Statistics "64 word" "64 word list"
  | Error_reading

datatype wake = Cond_signal | Cond_broadcast

text \<open>Where the player thread stands in \<open>sound_player_thread\<close>, by source line.\<close>

datatype player_pc =
    At_while        \<comment> \<open>line 261, the test \<open>while (running)\<close>\<close>
  | At_wait         \<comment> \<open>lines 262 to 266, the mutex taken, the wait loop\<close>
  | At_take         \<comment> \<open>lines 268 to 277, the mutex still held\<close>
  | At_play int     \<comment> \<open>line 279, the call of \<open>play_sound_file\<close>\<close>
  | At_idle         \<comment> \<open>lines 281 to 283\<close>
  | Player_ended    \<comment> \<open>line 285, or cancelled by \<open>monitor_device\<close>\<close>

datatype monitor_pc = Monitor_running | Monitor_ended

record state =
  current_intensity :: int
  is_playing :: bool
  running :: bool
  debug :: debug_stats
  terminal :: "message list"
  wakes :: "wake list"
  commands :: "command list"
  player :: player_pc
  monitor :: monitor_pc
  exited :: bool

definition initial_state :: "bool \<Rightarrow> state" where
  \<comment> \<open>the initialisers of lines 46 to 61; the argument is the \<open>--debug\<close> flag\<close>
  "initial_state dbg =
     \<lparr>current_intensity = 0, is_playing = False, running = True,
      debug = \<lparr>intensity_counts = (\<lambda>_. 0), total_movements = 0, last_raw_movement = Num 0,
               last_scaled_value = Num 0, enabled = dbg\<rparr>,
      terminal = [], wakes = [], commands = [],
      player = At_while, monitor = Monitor_running, exited = False\<rparr>"

definition printf :: "message \<Rightarrow> state \<Rightarrow> state" where
  "printf m s = s\<lparr>terminal := terminal s @ [m]\<rparr>"

definition debug_printf :: "message \<Rightarrow> state \<Rightarrow> state" where
  \<comment> \<open>\<open>if (debug.enabled) printf(...)\<close>\<close>
  "debug_printf m s = (if enabled (debug s) then printf m s else s)"

section \<open>The intensity mapper\<close>

definition movement_of :: "32 word \<Rightarrow> 32 word \<Rightarrow> double" where
  \<comment> \<open>line 161\<close>
  "movement_of dx dy = sqrt_d (double_of_int (dx * dx + dy * dy))"

definition clamp_intensity :: "int \<Rightarrow> int" where
  \<comment> \<open>line 186\<close>
  "clamp_intensity i =
     (if i < 1 then 1 else (if i > NUM_INTENSITY_LEVELS then NUM_INTENSITY_LEVELS else i))"

definition scaled_of :: "config \<Rightarrow> double \<Rightarrow> double" where
  \<comment> \<open>line 179; C's \<open>log\<close> is the natural logarithm\<close>
  "scaled_of cfg movement = div_d (log_d movement) (log_d (Num (log_base cfg)))"

definition max_scaled_of :: "config \<Rightarrow> double" where
  \<comment> \<open>line 182\<close>
  "max_scaled_of cfg =
     div_d (log_d (Num (max_movement_threshold cfg))) (log_d (Num (log_base cfg)))"

definition intensity_scaled_of :: "config \<Rightarrow> double \<Rightarrow> double" where
  \<comment> \<open>line 183\<close>
  "intensity_scaled_of cfg scaled =
     add_d (Num 1)
       (mul_d (div_d scaled (max_scaled_of cfg)) (Num (real_of_int (NUM_INTENSITY_LEVELS - 1))))"

definition calculate_intensity ::
  "config \<Rightarrow> state \<Rightarrow> 32 word \<Rightarrow> 32 word \<Rightarrow> fault + (int \<times> state)" where
  "calculate_intensity cfg s dx dy =
     (let movement = movement_of dx dy;
          s1 = s\<lparr>debug := (debug s)\<lparr>last_raw_movement := movement\<rparr>\<rparr>
      in if lt_d movement (Num (min_movement_threshold cfg)) then
           Inr (1, debug_printf (Below_threshold movement) s1)
         else if gt_d movement (Num (max_movement_threshold cfg)) then
           Inr (NUM_INTENSITY_LEVELS,
                debug_printf (Above_max_threshold movement NUM_INTENSITY_LEVELS) s1)
         else
           let scaled = scaled_of cfg movement;
               s2 = s1\<lparr>debug := (debug s1)\<lparr>last_scaled_value := scaled\<rparr>\<rparr>;
               intensity_scaled = intensity_scaled_of cfg scaled
           in case int_of_double (add_d intensity_scaled (Num 0.5)) of
                Inl e \<Rightarrow> Inl e
              | Inr i \<Rightarrow>
                  let intensity = clamp_intensity i;
                      s3 = debug_printf (Movement_scaled movement scaled intensity) s2;
                      d = debug s3;
                      s4 = s3\<lparr>debug := d
                             \<lparr>intensity_counts :=
                                (intensity_counts d)
                                  (nat intensity := intensity_counts d (nat intensity) + 1),
                              total_movements := total_movements d + 1\<rparr>\<rparr>
                  in Inr (intensity, s4))"

definition level_of :: "fault + (int \<times> state) \<Rightarrow> fault + int" where
  \<comment> \<open>the value a call returns, without the state it leaves\<close>
  "level_of r = map_sum id fst r"

text \<open>
  The same function as the compiled program runs it: the cast always gives an \<open>int\<close>,
  the clamp of line 186 works on whatever it gives, and the call always returns.
\<close>

definition calculate_intensity_on ::
  "int \<Rightarrow> config \<Rightarrow> state \<Rightarrow> 32 word \<Rightarrow> 32 word \<Rightarrow> int \<times> state" where
  "calculate_intensity_on p cfg s dx dy =
     (let movement = movement_of dx dy;
          s1 = s\<lparr>debug := (debug s)\<lparr>last_raw_movement := movement\<rparr>\<rparr>
      in if lt_d movement (Num (min_movement_threshold cfg)) then
           (1, debug_printf (Below_threshold movement) s1)
         else if gt_d movement (Num (max_movement_threshold cfg)) then
           (NUM_INTENSITY_LEVELS,
            debug_printf (Above_max_threshold movement NUM_INTENSITY_LEVELS) s1)
         else
           let scaled = scaled_of cfg movement;
               s2 = s1\<lparr>debug := (debug s1)\<lparr>last_scaled_value := scaled\<rparr>\<rparr>;
               intensity_scaled = intensity_scaled_of cfg scaled;
               intensity = clamp_intensity (cast_on p (add_d intensity_scaled (Num 0.5)));
               s3 = debug_printf (Movement_scaled movement scaled intensity) s2;
               d = debug s3;
               s4 = s3\<lparr>debug := d
                      \<lparr>intensity_counts :=
                         (intensity_counts d)
                           (nat intensity := intensity_counts d (nat intensity) + 1),
                       total_movements := total_movements d + 1\<rparr>\<rparr>
           in (intensity, s4))"

section \<open>The channel\<close>

definition pthread_cond_signal :: "state \<Rightarrow> state" where
  "pthread_cond_signal s = s\<lparr>wakes := wakes s @ [Cond_signal]\<rparr>"

definition pthread_cond_broadcast :: "state \<Rightarrow> state" where
  "pthread_cond_broadcast s = s\<lparr>wakes := wakes s @ [Cond_broadcast]\<rparr>"

definition deposit :: "int \<Rightarrow> state \<Rightarrow> state" where
  \<comment> \<open>the critical section of \<open>monitor_device\<close>, lines 327 to 332\<close>
  "deposit new_intensity s =
     (if \<not> is_playing s \<or> new_intensity \<noteq> current_intensity s
      then pthread_cond_signal (s\<lparr>current_intensity := new_intensity\<rparr>)
      else s)"

section \<open>Playback and the player thread\<close>

datatype outcome = Played | Playback_failed

definition exit_status :: "outcome \<Rightarrow> int" where
  "exit_status oc = (case oc of Played \<Rightarrow> 0 | Playback_failed \<Rightarrow> 256)"

definition system_d :: "command \<Rightarrow> outcome \<Rightarrow> state \<Rightarrow> int \<times> state" where
  \<comment> \<open>\<open>system\<close>: runs the command and returns its status; the command line sends the
      player's own messages to \<open>/dev/null\<close>\<close>
  "system_d cmd oc s = (exit_status oc, s\<lparr>commands := commands s @ [cmd]\<rparr>)"

definition play_sound_file :: "config \<Rightarrow> outcome \<Rightarrow> int \<Rightarrow> state \<Rightarrow> state" where
  \<comment> \<open>lines 199 to 217; the value of \<open>system\<close> is dropped\<close>
  "play_sound_file cfg oc intensity s =
     (let s1 = debug_printf (Playing_from (sound_directory cfg) intensity) s
      in if \<not> no_sound cfg then
           let cmd = Aplay (sound_directory cfg) intensity;
               s2 = debug_printf (Executing cmd) s1
           in snd (system_d cmd oc s2)
         else debug_printf (Playback_disabled (sound_directory cfg) intensity) s1)"

definition sound_player_thread :: "config \<Rightarrow> outcome \<Rightarrow> state \<Rightarrow> state" where
  \<comment> \<open>one step of the player thread from where it stands; at \<open>At_wait\<close> a step is one
      evaluation of the wait condition, after which the thread waits again or goes on\<close>
  "sound_player_thread cfg oc s =
     (case player s of
        At_while \<Rightarrow> if running s then s\<lparr>player := At_wait\<rparr> else s\<lparr>player := Player_ended\<rparr>
      | At_wait \<Rightarrow>
          if current_intensity s = 0 \<and> running s then s else s\<lparr>player := At_take\<rparr>
      | At_take \<Rightarrow>
          if \<not> running s then s\<lparr>player := Player_ended\<rparr>
          else s\<lparr>player := At_play (current_intensity s), current_intensity := 0,
                 is_playing := True\<rparr>
      | At_play intensity_to_play \<Rightarrow>
          (play_sound_file cfg oc intensity_to_play s)\<lparr>player := At_idle\<rparr>
      | At_idle \<Rightarrow> s\<lparr>is_playing := False, player := At_while\<rparr>
      | Player_ended \<Rightarrow> s)"

section \<open>The monitor loop\<close>

text \<open>
  \<open>struct input_event\<close> and the event codes of the Linux header \<open>input-event-codes.h\<close>,
  which the source includes: \<open>EV_REL\<close> is 2, \<open>REL_X\<close> is 0 and \<open>REL_Y\<close> is 1.
\<close>

record input_event =
  ev_type :: "16 word"
  ev_code :: "16 word"
  ev_value :: "32 word"

definition EV_REL :: "16 word" where
  "EV_REL = 2"

definition REL_X :: "16 word" where
  "REL_X = 0"

definition REL_Y :: "16 word" where
  "REL_Y = 1"

datatype read_result = Short_read | Event input_event

definition motion_sample :: "input_event \<Rightarrow> (32 word \<times> 32 word) option" where
  \<comment> \<open>lines 320 to 323: the pair \<open>(dx, dy)\<close> handed to the mapper, if any\<close>
  "motion_sample ev =
     (if ev_type ev = EV_REL then
        (if ev_code ev = REL_X \<or> ev_code ev = REL_Y then
           Some (if ev_code ev = REL_X then ev_value ev else 0,
                 if ev_code ev = REL_Y then ev_value ev else 0)
         else None)
      else None)"

definition monitor_leave :: "state \<Rightarrow> state" where
  \<comment> \<open>lines 337 to 339: the player thread is cancelled and joined\<close>
  "monitor_leave s = s\<lparr>player := Player_ended, monitor := Monitor_ended\<rparr>"

definition monitor_device :: "config \<Rightarrow> read_result \<Rightarrow> state \<Rightarrow> fault + state" where
  \<comment> \<open>one turn of the loop of lines 311 to 335, on the result of its \<open>read\<close>\<close>
  "monitor_device cfg rd s =
     (if \<not> running s then Inr (monitor_leave s)
      else case rd of
        Short_read \<Rightarrow>
          Inr (monitor_leave (if running s then printf Error_reading s else s))
      | Event ev \<Rightarrow>
          (case motion_sample ev of
             None \<Rightarrow> Inr s
           | Some (dx, dy) \<Rightarrow>
               (case calculate_intensity cfg s dx dy of
                  Inl e \<Rightarrow> Inl e
                | Inr (new_intensity, s1) \<Rightarrow> Inr (deposit new_intensity s1))))"

definition monitor_device_on :: "int \<Rightarrow> config \<Rightarrow> read_result \<Rightarrow> state \<Rightarrow> state" where
  \<comment> \<open>the same turn of the loop as the compiled program runs it\<close>
  "monitor_device_on p cfg rd s =
     (if \<not> running s then monitor_leave s
      else case rd of
        Short_read \<Rightarrow> monitor_leave (if running s then printf Error_reading s else s)
      | Event ev \<Rightarrow>
          (case motion_sample ev of
             None \<Rightarrow> s
           | Some (dx, dy) \<Rightarrow>
               (case calculate_intensity_on p cfg s dx dy of
                  (new_intensity, s1) \<Rightarrow> deposit new_intensity s1)))"

section \<open>The signal handler\<close>

definition SIGINT :: int where
  "SIGINT = 2"

definition print_debug_stats :: "state \<Rightarrow> state" where
  \<comment> \<open>lines 219 to 246, the printed table as one message\<close>
  "print_debug_stats s =
     (if \<not> enabled (debug s) then s
      else printf (Statistics (total_movements (debug s))
                     (map (intensity_counts (debug s)) [1 ..< 11])) s)"

definition handle_signal :: "int \<Rightarrow> state \<Rightarrow> state" where
  \<comment> \<open>lines 248 to 256; \<open>exit(0)\<close> ends the process and every thread in it\<close>
  "handle_signal sig s =
     (if sig = SIGINT then
        (print_debug_stats
           (pthread_cond_broadcast ((printf Received_sigint s)\<lparr>running := False\<rparr>)))
          \<lparr>exited := True\<rparr>
      else s)"

section \<open>The running program\<close>

text \<open>
  The states the program can be in: the monitor, the player and the signal handler take
  their steps in any order until the process has exited. The mutex forbids some of these
  orders (the monitor cannot enter its critical section while the player stands at
  \<open>At_take\<close>), so every state the program reaches is among these. The monitor takes its
  turns as the compiled program does, each with whatever its cast leaves: an event whose
  movement is not a number is followed by a deposit like any other.
\<close>

inductive reachable :: "config \<Rightarrow> state \<Rightarrow> bool" for cfg :: config where
  start: "reachable cfg (initial_state dbg)"
| monitor_step:
    "reachable cfg s \<Longrightarrow> \<not> exited s \<Longrightarrow> monitor s = Monitor_running \<Longrightarrow>
     reachable cfg (monitor_device_on p cfg rd s)"
| player_step:
    "reachable cfg s \<Longrightarrow> \<not> exited s \<Longrightarrow> reachable cfg (sound_player_thread cfg oc s)"
| signal_step:
    "reachable cfg s \<Longrightarrow> \<not> exited s \<Longrightarrow> reachable cfg (handle_signal SIGINT s)"

section \<open>Configurations and predicates used in the statements\<close>

definition unit_max_config :: config where
  \<comment> \<open>a configuration that passes the checks of \<open>main\<close>: \<open>-m 0.5 -M 1 -b 2\<close>\<close>
  "unit_max_config =
     \<lparr>sound_directory = ''moans'', min_movement_threshold = 1 / 2, max_movement_threshold = 1,
      log_base = 2, no_sound = False\<rparr>"

definition wide_config :: config where
  \<comment> \<open>a configuration that passes the checks of \<open>main\<close>: \<open>-M 65536\<close>\<close>
  "wide_config =
     \<lparr>sound_directory = ''moans'', min_movement_threshold = 1, max_movement_threshold = 65536,
      log_base = 2, no_sound = False\<rparr>"

definition channel_ok :: "state \<Rightarrow> bool" where
  \<comment> \<open>the invariant of the pending slot and of the level the player holds\<close>
  "channel_ok s =
     ((current_intensity s = 0 \<or> (1 \<le> current_intensity s \<and> current_intensity s \<le> 10))
      \<and> (player s = At_take \<longrightarrow> current_intensity s \<noteq> 0 \<or> \<not> running s)
      \<and> (\<forall>n. player s = At_play n \<longrightarrow> 1 \<le> n \<and> n \<le> 10))"

section \<open>The mapper: supporting lemmas\<close>

lemma clamp_intensity_range: "1 \<le> clamp_intensity i \<and> clamp_intensity i \<le> 10"
  by (simp add: clamp_intensity_def NUM_INTENSITY_LEVELS_def)

text \<open>Without overflow the computed movement is the Euclidean norm of the two deltas.\<close>

lemma signed_take_bit_31:
  fixes k :: int
  assumes "0 \<le> k" and "k < 2 ^ 31"
  shows "signed_take_bit 31 k = k"
proof (rule signed_take_bit_int_eq_self)
  from assms(1) show "- (2 ^ 31) \<le> k" by simp
  from assms(2) show "k < 2 ^ 31" .
qed

lemma sint_times_32: "sint (a * b :: 32 word) = signed_take_bit 31 (sint a * sint b)"
  by (simp add: sint_word_ariths)

lemma sint_plus_32: "sint (a + b :: 32 word) = signed_take_bit 31 (sint a + sint b)"
  by (simp add: sint_word_ariths)

lemma sint_product_exact:
  fixes dx dy :: "32 word"
  assumes "sint dx * sint dx + sint dy * sint dy < 2 ^ 31"
  shows "sint (dx * dx + dy * dy) = sint dx * sint dx + sint dy * sint dy"
proof -
  have nn: "0 \<le> sint dx * sint dx" "0 \<le> sint dy * sint dy" by simp_all
  with assms have b1: "sint dx * sint dx < 2 ^ 31" and b2: "sint dy * sint dy < 2 ^ 31"
    by linarith+
  have m1: "sint (dx * dx) = sint dx * sint dx"
    unfolding sint_times_32 using nn(1) b1 by (rule signed_take_bit_31)
  have m2: "sint (dy * dy) = sint dy * sint dy"
    unfolding sint_times_32 using nn(2) b2 by (rule signed_take_bit_31)
  have "0 \<le> sint dx * sint dx + sint dy * sint dy" using nn by linarith
  then show ?thesis
    unfolding sint_plus_32 m1 m2 using assms by (rule signed_take_bit_31)
qed

lemma movement_of_exact:
  fixes dx dy :: "32 word"
  assumes "sint dx * sint dx + sint dy * sint dy < 2 ^ 31"
  shows "movement_of dx dy = Num (sqrt (real_of_int (sint dx * sint dx + sint dy * sint dy)))"
proof -
  have "0 \<le> sint dx * sint dx + sint dy * sint dy" by simp
  then have "\<not> real_of_int (sint dx * sint dx + sint dy * sint dy) < 0" by linarith
  then show ?thesis
    unfolding movement_of_def double_of_int_def sint_product_exact [OF assms] by simp
qed

text \<open>Some movements, evaluated.\<close>

lemma sqrt_100: "sqrt 100 = 10"
  using real_sqrt_abs [of 10] by simp

lemma movement_of_6_8: "movement_of 6 8 = Num 10"
  by (simp add: movement_of_def double_of_int_def sqrt_100)

lemma movement_of_1_0: "movement_of 1 0 = Num 1"
  by (simp add: movement_of_def double_of_int_def)

lemma movement_of_0_0: "movement_of 0 0 = Num 0"
  by (simp add: movement_of_def double_of_int_def)

lemma movement_of_65536_0: "movement_of 65536 0 = Num 0"
  by (simp add: movement_of_def double_of_int_def)

lemma movement_of_46341_0: "movement_of 46341 0 = NaN"
  by (simp add: movement_of_def double_of_int_def)

text \<open>What a call returns and what it leaves behind.\<close>

lemma calculate_intensity_frame:
  "calculate_intensity cfg s dx dy = Inr (v, s') \<Longrightarrow>
     s' = s\<lparr>debug := debug s', terminal := terminal s'\<rparr>"
  by (auto simp: calculate_intensity_def Let_def debug_printf_def printf_def
      split: if_splits sum.splits)


lemma calculate_intensity_channel:
  assumes "calculate_intensity cfg s dx dy = Inr (v, s1)"
  shows "current_intensity s1 = current_intensity s" and "is_playing s1 = is_playing s"
    and "running s1 = running s" and "wakes s1 = wakes s" and "commands s1 = commands s"
    and "player s1 = player s" and "monitor s1 = monitor s" and "exited s1 = exited s"
  using calculate_intensity_frame [OF assms] by (cases s; cases s1; simp)+



lemma calculate_intensity_NaN:
  "movement_of dx dy = NaN \<Longrightarrow> calculate_intensity cfg s dx dy = Inl Undefined_conversion"
  by (simp add: calculate_intensity_def Let_def scaled_of_def intensity_scaled_of_def)

lemma calculate_intensity_formula:
  assumes "\<not> lt_d (movement_of dx dy) (Num (min_movement_threshold cfg))"
    and "\<not> gt_d (movement_of dx dy) (Num (max_movement_threshold cfg))"
    and "int_of_double
           (add_d (intensity_scaled_of cfg (scaled_of cfg (movement_of dx dy))) (Num 0.5)) = r"
  shows "level_of (calculate_intensity cfg s dx dy) = map_sum id clamp_intensity r"
  using assms by (cases r) (simp_all add: calculate_intensity_def Let_def level_of_def)


text \<open>The call as the compiled program runs it.\<close>

lemma calculate_intensity_on_agrees:
  "calculate_intensity cfg s dx dy = Inr r \<Longrightarrow> calculate_intensity_on p cfg s dx dy = r"
  by (auto simp: calculate_intensity_def calculate_intensity_on_def Let_def cast_on_def
      split: if_splits sum.splits)

lemma calculate_intensity_on_range:
  "1 \<le> fst (calculate_intensity_on p cfg s dx dy)
   \<and> fst (calculate_intensity_on p cfg s dx dy) \<le> 10"
  using clamp_intensity_range
  by (simp add: calculate_intensity_on_def Let_def NUM_INTENSITY_LEVELS_def)

lemma calculate_intensity_on_channel:
  "current_intensity (snd (calculate_intensity_on p cfg s dx dy)) = current_intensity s
   \<and> is_playing (snd (calculate_intensity_on p cfg s dx dy)) = is_playing s
   \<and> running (snd (calculate_intensity_on p cfg s dx dy)) = running s
   \<and> player (snd (calculate_intensity_on p cfg s dx dy)) = player s"
  by (simp add: calculate_intensity_on_def Let_def debug_printf_def printf_def)

lemma calculate_intensity_on_NaN:
  assumes "movement_of dx dy = NaN"
  shows "fst (calculate_intensity_on p cfg s dx dy) = clamp_intensity p"
  using assms
  by (simp add: calculate_intensity_on_def Let_def scaled_of_def intensity_scaled_of_def
      cast_on_def)

text \<open>The default configuration on the movement 10.\<close>

lemma valid_default_config: "valid_config default_config"
  by (simp add: valid_config_def default_config_def)

lemma ln_100: "ln (100::real) = 2 * ln 10"
  using ln_mult [of "10::real" 10] by simp

lemma intensity_scaled_6_8:
  "intensity_scaled_of default_config (scaled_of default_config (Num 10)) = Num 5.5"
proof -
  have "ln (2::real) > 0" "ln (10::real) > 0" by simp_all
  then show ?thesis
    by (simp add: intensity_scaled_of_def scaled_of_def max_scaled_of_def default_config_def
        NUM_INTENSITY_LEVELS_def ln_100)
qed

lemma level_6_8: "level_of (calculate_intensity default_config s 6 8) = Inr 6"
proof -
  have a: "\<not> lt_d (movement_of 6 8) (Num (min_movement_threshold default_config))"
    and b: "\<not> gt_d (movement_of 6 8) (Num (max_movement_threshold default_config))"
    by (simp_all add: default_config_def movement_of_6_8)
  have c: "int_of_double (add_d (intensity_scaled_of default_config
              (scaled_of default_config (movement_of 6 8))) (Num 0.5)) = Inr 6"
    by (simp add: movement_of_6_8 intensity_scaled_6_8 trunc_def)
  show ?thesis
    using calculate_intensity_formula [OF a b c]
    by (simp add: clamp_intensity_def NUM_INTENSITY_LEVELS_def)
qed

lemma scaled_10: "scaled_of default_config (Num 10) = Num (ln 10 / ln 2)"
  by (simp add: scaled_of_def default_config_def)


lemma calculate_intensity_0_0:
  "calculate_intensity default_config s 0 0 =
     Inr (1, debug_printf (Below_threshold (Num 0))
               (s\<lparr>debug := (debug s)\<lparr>last_raw_movement := Num 0\<rparr>\<rparr>))"
  by (simp add: calculate_intensity_def Let_def movement_of_0_0 default_config_def)


section \<open>The channel and the threads: supporting lemmas\<close>

lemma deposit_current: "current_intensity (deposit v s) = v"
  by (simp add: deposit_def pthread_cond_signal_def)

lemma motion_sample_one_axis:
  assumes "motion_sample ev = Some (dx, dy)"
  shows "ev_type ev = EV_REL
       \<and> ((ev_code ev = REL_X \<and> dx = ev_value ev \<and> dy = 0)
          \<or> (ev_code ev = REL_Y \<and> dx = 0 \<and> dy = ev_value ev))"
  using assms by (auto simp: motion_sample_def REL_X_def REL_Y_def split: if_splits)

lemma movement_of_one_axis:
  assumes "motion_sample ev = Some (dx, dy)"
    and "sint (ev_value ev) * sint (ev_value ev) < 2 ^ 31"
  shows "movement_of dx dy = Num \<bar>real_of_int (sint (ev_value ev))\<bar>"
proof -
  from motion_sample_one_axis [OF assms(1)]
  have "sint dx * sint dx + sint dy * sint dy = sint (ev_value ev) * sint (ev_value ev)"
    by auto
  with assms(2) movement_of_exact [of dx dy]
  have "movement_of dx dy = Num (sqrt (real_of_int (sint (ev_value ev) * sint (ev_value ev))))"
    by simp
  then show ?thesis by simp
qed

lemma motion_sample_rel_x:
  "motion_sample \<lparr>ev_type = EV_REL, ev_code = REL_X, ev_value = x\<rparr> = Some (x, 0)"
  by (simp add: motion_sample_def REL_X_def REL_Y_def)

lemma handle_signal_threads:
  "exited (handle_signal SIGINT s) \<and> \<not> running (handle_signal SIGINT s)
   \<and> player (handle_signal SIGINT s) = player s \<and> monitor (handle_signal SIGINT s) = monitor s"
  by (simp add: handle_signal_def print_debug_stats_def pthread_cond_broadcast_def printf_def)

lemma channel_ok_initial: "channel_ok (initial_state dbg)"
  by (simp add: channel_ok_def initial_state_def)

lemma channel_ok_signal: "channel_ok s \<Longrightarrow> channel_ok (handle_signal sig s)"
  by (simp add: channel_ok_def handle_signal_def print_debug_stats_def
      pthread_cond_broadcast_def printf_def)

lemma play_sound_file_channel:
  "current_intensity (play_sound_file cfg oc n s) = current_intensity s
   \<and> is_playing (play_sound_file cfg oc n s) = is_playing s
   \<and> running (play_sound_file cfg oc n s) = running s
   \<and> player (play_sound_file cfg oc n s) = player s
   \<and> monitor (play_sound_file cfg oc n s) = monitor s
   \<and> exited (play_sound_file cfg oc n s) = exited s
   \<and> wakes (play_sound_file cfg oc n s) = wakes s"
  by (simp add: play_sound_file_def Let_def debug_printf_def printf_def system_d_def)

lemma channel_ok_player: "channel_ok s \<Longrightarrow> channel_ok (sound_player_thread cfg oc s)"
  by (cases "player s")
    (auto simp: channel_ok_def sound_player_thread_def play_sound_file_channel)

lemma monitor_device_on_agrees:
  "monitor_device cfg rd s = Inr s' \<Longrightarrow> monitor_device_on p cfg rd s = s'"
  by (auto simp: monitor_device_def monitor_device_on_def
      dest: calculate_intensity_on_agrees [where p = p]
      split: if_splits read_result.splits option.splits sum.splits prod.splits)

lemma channel_ok_deposit:
  assumes "channel_ok s" and "1 \<le> v" and "v \<le> 10"
    and "player s1 = player s"
  shows "channel_ok (deposit v s1)"
proof -
  have "current_intensity (deposit v s1) = v" by (rule deposit_current)
  moreover have "player (deposit v s1) = player s"
    using assms(4) by (simp add: deposit_def pthread_cond_signal_def)
  ultimately show ?thesis using assms(1-3) by (simp add: channel_ok_def)
qed

lemma channel_ok_monitor: "channel_ok s \<Longrightarrow> channel_ok (monitor_device_on p cfg rd s)"
proof (cases "running s")
  case False
  assume "channel_ok s"
  with False show ?thesis
    by (simp add: monitor_device_on_def monitor_leave_def channel_ok_def)
next
  case True
  assume ok: "channel_ok s"
  show ?thesis
  proof (cases rd)
    case Short_read
    with True ok show ?thesis
      by (simp add: monitor_device_on_def monitor_leave_def channel_ok_def printf_def)
  next
    case (Event ev)
    show ?thesis
    proof (cases "motion_sample ev")
      case None
      with True Event ok show ?thesis by (simp add: monitor_device_on_def)
    next
      case (Some q)
      obtain dx dy where q: "q = (dx, dy)" by (cases q)
      obtain v s1 where c: "calculate_intensity_on p cfg s dx dy = (v, s1)"
        by (cases "calculate_intensity_on p cfg s dx dy")
      from calculate_intensity_on_range [of p cfg s dx dy] c
      have v: "1 \<le> v" "v \<le> 10" by simp_all
      from calculate_intensity_on_channel [of p cfg s dx dy] c
      have "player s1 = player s" by simp
      from channel_ok_deposit [OF ok v this] True Event Some q c show ?thesis
        by (simp add: monitor_device_on_def)
    qed
  qed
qed

lemma reachable_channel_ok: "reachable cfg s \<Longrightarrow> channel_ok s"
proof (induction rule: reachable.induct)
  case (start dbg)
  show ?case by (rule channel_ok_initial)
next
  case (monitor_step s p rd)
  then show ?case by (blast intro: channel_ok_monitor)
next
  case (player_step s oc)
  then show ?case by (blast intro: channel_ok_player)
next
  case (signal_step s)
  then show ?case by (blast intro: channel_ok_signal)
qed

text \<open>A run: the first event deposits level 1, and the player takes it.\<close>

lemma first_event:
  "monitor_device default_config
     (Event \<lparr>ev_type = EV_REL, ev_code = REL_X, ev_value = 0\<rparr>) (initial_state False)
   = Inr ((initial_state False)\<lparr>current_intensity := 1, wakes := [Cond_signal]\<rparr>)"
  by (simp add: monitor_device_def motion_sample_rel_x calculate_intensity_0_0
      debug_printf_def deposit_def pthread_cond_signal_def initial_state_def)

lemma reachable_first_event:
  "reachable default_config
     ((initial_state False)\<lparr>current_intensity := 1, wakes := [Cond_signal]\<rparr>)"
proof -
  have "reachable default_config (initial_state False)" by (rule reachable.start)
  then have "reachable default_config
      (monitor_device_on 0 default_config
         (Event \<lparr>ev_type = EV_REL, ev_code = REL_X, ev_value = 0\<rparr>) (initial_state False))"
    by (rule reachable.monitor_step) (simp_all add: initial_state_def)
  then show ?thesis by (simp only: monitor_device_on_agrees [OF first_event])
qed

text \<open>
  A run whose first event has a delta of 46341: the movement is not a number, the cast
  leaves the smallest \<open>int\<close>, the clamp makes it 1, and level 1 is deposited.
\<close>

lemma overflow_event:
  "current_intensity
     (monitor_device_on (- (2 ^ 31)) default_config
        (Event \<lparr>ev_type = EV_REL, ev_code = REL_X, ev_value = 46341\<rparr>) (initial_state False))
   = 1"
proof -
  have r: "running (initial_state False)" by (simp add: initial_state_def)
  have "clamp_intensity (- (2 ^ 31)) = 1" by (simp add: clamp_intensity_def)
  with calculate_intensity_on_NaN [OF movement_of_46341_0, of "- (2 ^ 31)" default_config
      "initial_state False"]
  have "fst (calculate_intensity_on (- (2 ^ 31)) default_config (initial_state False) 46341 0)
          = 1"
    by simp
  with r show ?thesis
    by (auto simp: monitor_device_on_def motion_sample_rel_x deposit_current split: prod.splits)
qed

lemma reachable_overflow_event:
  "reachable default_config
     (monitor_device_on (- (2 ^ 31)) default_config
        (Event \<lparr>ev_type = EV_REL, ev_code = REL_X, ev_value = 46341\<rparr>) (initial_state False))"
proof -
  have "reachable default_config (initial_state False)" by (rule reachable.start)
  then show ?thesis
    by (rule reachable.monitor_step) (simp_all add: initial_state_def)
qed

lemma reachable_taken:
  "reachable default_config
     ((initial_state False)\<lparr>current_intensity := 0, wakes := [Cond_signal],
        player := At_play 1, is_playing := True\<rparr>)"
proof -
  let ?s1 = "(initial_state False)\<lparr>current_intensity := 1, wakes := [Cond_signal]\<rparr>"
  have "reachable default_config (sound_player_thread default_config Played ?s1)"
    by (rule reachable.player_step [OF reachable_first_event]) (simp add: initial_state_def)
  then have r2: "reachable default_config (?s1\<lparr>player := At_wait\<rparr>)"
    by (simp add: sound_player_thread_def initial_state_def)
  have "reachable default_config
          (sound_player_thread default_config Played (?s1\<lparr>player := At_wait\<rparr>))"
    by (rule reachable.player_step [OF r2]) (simp add: initial_state_def)
  then have r3: "reachable default_config (?s1\<lparr>player := At_take\<rparr>)"
    by (simp add: sound_player_thread_def initial_state_def)
  have "reachable default_config
          (sound_player_thread default_config Played (?s1\<lparr>player := At_take\<rparr>))"
    by (rule reachable.player_step [OF r3]) (simp add: initial_state_def)
  then show ?thesis
    by (simp add: sound_player_thread_def initial_state_def)
qed


section \<open>The claims\<close>

subsection \<open>C1: the deposit policy\<close>

text \<open>
  C1. A turn of the monitor loop on a relative move on a tracked axis computes a level
  \<open>v\<close> and runs the critical section on it. The call of \<open>calculate_intensity\<close> leaves
  the busy flag, the pending slot and the condition variable alone. Then, if the player is
  not busy or \<open>v\<close> differs from the pending value, the pending slot becomes \<open>v\<close> and
  the condition variable is signalled once (\<open>pthread_cond_signal\<close>, which wakes one
  waiter); if the player is busy and \<open>v\<close> is the pending value, the state is left as it
  is and nothing is signalled.
\<close>

theorem monitor_deposit:
  assumes "running s" and "motion_sample ev = Some (dx, dy)"
    and "calculate_intensity cfg s dx dy = Inr (v, s1)"
  shows "monitor_device cfg (Event ev) s = Inr (deposit v s1)
       \<and> (\<not> is_playing s1 \<or> v \<noteq> current_intensity s1 \<longrightarrow>
            deposit v s1 = s1\<lparr>current_intensity := v, wakes := wakes s1 @ [Cond_signal]\<rparr>)
       \<and> (is_playing s1 \<and> v = current_intensity s1 \<longrightarrow> deposit v s1 = s1)
       \<and> is_playing s1 = is_playing s \<and> current_intensity s1 = current_intensity s
       \<and> wakes s1 = wakes s"
  using assms calculate_intensity_channel [OF assms(3)]
  by (simp add: monitor_device_def deposit_def pthread_cond_signal_def)

text \<open>
  The theorem at the first event of a run (the player idle, the slot empty) and at an event
  that finds the player busy with the same level pending.
\<close>

theorem monitor_deposit_witness:
  "running (initial_state False)
   \<and> motion_sample \<lparr>ev_type = EV_REL, ev_code = REL_X, ev_value = 0\<rparr> = Some (0, 0)
   \<and> calculate_intensity default_config (initial_state False) 0 0
       = Inr (1, initial_state False)
   \<and> \<not> is_playing (initial_state False)
   \<and> monitor_device default_config
        (Event \<lparr>ev_type = EV_REL, ev_code = REL_X, ev_value = 0\<rparr>) (initial_state False)
       = Inr ((initial_state False)\<lparr>current_intensity := 1, wakes := [Cond_signal]\<rparr>)
   \<and> calculate_intensity default_config
        ((initial_state False)\<lparr>current_intensity := 1, is_playing := True\<rparr>) 0 0
       = Inr (1, (initial_state False)\<lparr>current_intensity := 1, is_playing := True\<rparr>)
   \<and> monitor_device default_config
        (Event \<lparr>ev_type = EV_REL, ev_code = REL_X, ev_value = 0\<rparr>)
        ((initial_state False)\<lparr>current_intensity := 1, is_playing := True\<rparr>)
       = Inr ((initial_state False)\<lparr>current_intensity := 1, is_playing := True\<rparr>)"
proof -
  let ?ev = "\<lparr>ev_type = EV_REL, ev_code = REL_X, ev_value = 0\<rparr>"
  let ?busy = "(initial_state False)\<lparr>current_intensity := 1, is_playing := True\<rparr>"
  have r: "running (initial_state False)" and r': "running ?busy"
    by (simp_all add: initial_state_def)
  have m: "motion_sample ?ev = Some (0, 0)" by (rule motion_sample_rel_x)
  have c: "calculate_intensity default_config (initial_state False) 0 0
             = Inr (1, initial_state False)"
    by (simp add: calculate_intensity_0_0 debug_printf_def initial_state_def)
  have c': "calculate_intensity default_config ?busy 0 0 = Inr (1, ?busy)"
    by (simp add: calculate_intensity_0_0 debug_printf_def initial_state_def)
  have idle: "\<not> is_playing (initial_state False)" by (simp add: initial_state_def)
  from monitor_deposit [OF r m c] idle
  have "monitor_device default_config (Event ?ev) (initial_state False)
          = Inr ((initial_state False)\<lparr>current_intensity := 1, wakes := [Cond_signal]\<rparr>)"
    by (simp add: initial_state_def)
  moreover from monitor_deposit [OF r' m c']
  have "monitor_device default_config (Event ?ev) ?busy = Inr ?busy"
    by simp
  ultimately show ?thesis using r m c c' idle by simp
qed

subsection \<open>C2: the range of the mapper\<close>

text \<open>
  C2. The claim is that every pair \<open>(dx, dy)\<close> and every configuration that passes the
  checks of \<open>main\<close> gives a level between 1 and 10 with no \<open>NaN\<close> on the way, also at
  a movement equal to a threshold. With \<open>-m 0.5 -M 1 -b 2\<close> and the move \<open>(1, 0)\<close> the
  movement equals the maximum threshold 1, \<open>max_scaled\<close> is \<open>log(1) / log(2) = 0\<close>, the
  quotient \<open>scaled / max_scaled\<close> is \<open>0 / 0\<close>, and the cast of line 185 converts a
  \<open>NaN\<close>: the call has no defined result.
\<close>

theorem unit_max_fault:
  "valid_config unit_max_config
   \<and> movement_of 1 0 = Num (max_movement_threshold unit_max_config)
   \<and> max_scaled_of unit_max_config = Num 0
   \<and> intensity_scaled_of unit_max_config (scaled_of unit_max_config (movement_of 1 0)) = NaN
   \<and> calculate_intensity unit_max_config (initial_state False) 1 0 = Inl Undefined_conversion"
  by (simp add: valid_config_def unit_max_config_def movement_of_1_0 max_scaled_of_def
      scaled_of_def intensity_scaled_of_def calculate_intensity_def Let_def)

text \<open>
  A delta whose square does not fit 32 bits reaches the same cast: \<open>46341 * 46341\<close>
  wraps to a negative number, whose square root is \<open>NaN\<close>.
\<close>

lemma overflow_fault:
  "calculate_intensity cfg s 46341 0 = Inl Undefined_conversion"
  by (rule calculate_intensity_NaN) (rule movement_of_46341_0)

text \<open>
  What the compiled program returns after such a cast is still a level between 1 and 10,
  whatever the cast leaves: the clamp of line 186 sees to it
  (\<open>calculate_intensity_on_range\<close>).
\<close>

subsection \<open>C3: shutdown\<close>

text \<open>
  C3. The claim is that after the shutdown signal the process does not exit until the
  monitor and the player have both ended. \<open>handle_signal\<close> clears \<open>running\<close>,
  broadcasts on the condition variable and then calls \<open>exit(0)\<close> itself. Taken after
  the player has picked up level 1 and before it plays it, the handler leaves a process
  that has exited while the player still holds its level and the monitor is still in its
  read loop. The path through \<open>monitor_leave\<close> (lines 337 to 339), which joins the
  player, is not taken.
\<close>

theorem sigint_exits_at_once:
  "reachable default_config
     (handle_signal SIGINT
        ((initial_state False)\<lparr>current_intensity := 0, wakes := [Cond_signal],
           player := At_play 1, is_playing := True\<rparr>))
   \<and> exited
     (handle_signal SIGINT
        ((initial_state False)\<lparr>current_intensity := 0, wakes := [Cond_signal],
           player := At_play 1, is_playing := True\<rparr>))
   \<and> player
     (handle_signal SIGINT
        ((initial_state False)\<lparr>current_intensity := 0, wakes := [Cond_signal],
           player := At_play 1, is_playing := True\<rparr>)) = At_play 1
   \<and> monitor
     (handle_signal SIGINT
        ((initial_state False)\<lparr>current_intensity := 0, wakes := [Cond_signal],
           player := At_play 1, is_playing := True\<rparr>)) = Monitor_running"
proof -
  let ?s = "(initial_state False)\<lparr>current_intensity := 0, wakes := [Cond_signal],
           player := At_play 1, is_playing := True\<rparr>"
  have "\<not> exited ?s" by (simp add: initial_state_def)
  with reachable_taken have "reachable default_config (handle_signal SIGINT ?s)"
    by (rule reachable.signal_step)
  then show ?thesis using handle_signal_threads [of ?s] by (simp add: initial_state_def)
qed

subsection \<open>C4: the two thresholds\<close>

text \<open>
  C4. The claim is that a magnitude \<open>sqrt(dx * dx + dy * dy)\<close> above the maximum
  threshold gives level 10. Line 161 forms \<open>dx * dx + dy * dy\<close> in 32-bit \<open>int\<close>
  before the conversion to \<open>double\<close>. With the default configuration and the move
  \<open>(0, 65536)\<close> the magnitude is 65536, above the maximum threshold 100, but the
  product wraps to 0: the computed movement is 0, the call leaves by the return for
  movements below the minimum threshold, and the level is 1.
\<close>

theorem above_max_returns_1:
  "valid_config default_config
   \<and> sqrt (real_of_int (sint (0 :: 32 word) * sint (0 :: 32 word)
                          + sint (65536 :: 32 word) * sint (65536 :: 32 word))) = 65536
   \<and> max_movement_threshold default_config < 65536
   \<and> movement_of 0 65536 = Num 0
   \<and> calculate_intensity default_config (initial_state False) 0 65536
       = Inr (1, initial_state False)"
proof -
  have a: "sqrt (real_of_int (sint (0 :: 32 word) * sint (0 :: 32 word)
                          + sint (65536 :: 32 word) * sint (65536 :: 32 word))) = 65536"
    using real_sqrt_abs [of 65536] by simp
  have b: "max_movement_threshold default_config < 65536"
    by (simp add: default_config_def)
  have c: "movement_of 0 65536 = Num 0"
    by (simp add: movement_of_def double_of_int_def)
  have d: "calculate_intensity default_config (initial_state False) 0 65536
       = Inr (1, initial_state False)"
    by (simp add: calculate_intensity_def Let_def c default_config_def debug_printf_def
        initial_state_def)
  from valid_default_config a b c d show ?thesis by (intro conjI)
qed

subsection \<open>C5: monotonicity between the thresholds\<close>

text \<open>
  C5. The claim is that between the thresholds a larger magnitude never gives a smaller
  level. With \<open>-M 65536\<close> the moves \<open>(1024, 0)\<close> and \<open>(65536, 0)\<close> have the
  magnitudes 1024 and 65536, both between the thresholds 1 and 65536. The first gets
  level 7 by the scaling path: \<open>1 + (10 / 16) * 9 = 6.625\<close>, and 7.125 is truncated.
  For the second the product \<open>dx * dx\<close> of line 161 wraps to 0, the computed movement
  is 0, and the level is 1.
\<close>

theorem overflow_breaks_monotonicity:
  "valid_config wide_config
   \<and> sqrt (real_of_int (sint (1024 :: 32 word) * sint (1024 :: 32 word)
                          + sint (0 :: 32 word) * sint (0 :: 32 word))) = 1024
   \<and> sqrt (real_of_int (sint (65536 :: 32 word) * sint (65536 :: 32 word)
                          + sint (0 :: 32 word) * sint (0 :: 32 word))) = 65536
   \<and> min_movement_threshold wide_config \<le> 1024
   \<and> 65536 \<le> max_movement_threshold wide_config
   \<and> level_of (calculate_intensity wide_config (initial_state False) 1024 0) = Inr 7
   \<and> level_of (calculate_intensity wide_config (initial_state False) 65536 0) = Inr 1"
proof -
  have v: "valid_config wide_config" by (simp add: valid_config_def wide_config_def)
  have a: "sqrt (real_of_int (sint (1024 :: 32 word) * sint (1024 :: 32 word)
                          + sint (0 :: 32 word) * sint (0 :: 32 word))) = 1024"
    using real_sqrt_abs [of 1024] by simp
  have b: "sqrt (real_of_int (sint (65536 :: 32 word) * sint (65536 :: 32 word)
                          + sint (0 :: 32 word) * sint (0 :: 32 word))) = 65536"
    using real_sqrt_abs [of 65536] by simp
  have c: "min_movement_threshold wide_config \<le> 1024"
    and d: "65536 \<le> max_movement_threshold wide_config"
    by (simp_all add: wide_config_def)
  have m: "movement_of 1024 0 = Num 1024"
    using real_sqrt_abs [of 1024] by (simp add: movement_of_def double_of_int_def)
  have l1: "ln (1024 :: real) = 10 * ln 2"
    using ln_realpow [of "2 :: real" 10] by simp
  have l2: "ln (65536 :: real) = 16 * ln 2"
    using ln_realpow [of "2 :: real" 16] by simp
  have ln2: "ln (2 :: real) > 0" by simp
  have sc: "intensity_scaled_of wide_config (scaled_of wide_config (movement_of 1024 0))
              = Num (53 / 8)"
    using ln2 by (simp add: m intensity_scaled_of_def scaled_of_def max_scaled_of_def
        wide_config_def NUM_INTENSITY_LEVELS_def l1 l2)
  have lo: "\<not> lt_d (movement_of 1024 0) (Num (min_movement_threshold wide_config))"
    and hi: "\<not> gt_d (movement_of 1024 0) (Num (max_movement_threshold wide_config))"
    by (simp_all add: m wide_config_def)
  have "\<lfloor>57 / 8 :: real\<rfloor> = 7" by (simp add: floor_eq_iff)
  then have cast: "int_of_double (add_d (intensity_scaled_of wide_config
                (scaled_of wide_config (movement_of 1024 0))) (Num 0.5)) = Inr 7"
    by (simp add: sc trunc_def)
  have e: "level_of (calculate_intensity wide_config (initial_state False) 1024 0) = Inr 7"
    using calculate_intensity_formula [OF lo hi cast]
    by (simp add: clamp_intensity_def NUM_INTENSITY_LEVELS_def)
  have f: "level_of (calculate_intensity wide_config (initial_state False) 65536 0) = Inr 1"
    by (simp add: calculate_intensity_def Let_def movement_of_65536_0 wide_config_def
        level_of_def)
  from v a b c d e f show ?thesis by (intro conjI)
qed

subsection \<open>C6: the worked example\<close>

text \<open>
  C6. With the default configuration (thresholds 1 and 100, base 2) the move \<open>(6, 8)\<close>
  has movement 10, \<open>scaled\<close> is the logarithm of 10 to base 2 and \<open>max_scaled\<close> that of
  100, the scaled intensity \<open>1 + (scaled / max_scaled) * 9\<close> is 5.5, adding 0.5 and
  truncating gives 6, and the call returns 6.
\<close>

theorem example_6_8:
  "movement_of 6 8 = Num 10
   \<and> scaled_of default_config (movement_of 6 8) = Num (log 2 10)
   \<and> max_scaled_of default_config = Num (log 2 100)
   \<and> intensity_scaled_of default_config (scaled_of default_config (movement_of 6 8)) = Num 5.5
   \<and> int_of_double (add_d (Num 5.5) (Num 0.5)) = Inr 6
   \<and> level_of (calculate_intensity default_config s 6 8) = Inr 6"
proof -
  have a: "scaled_of default_config (movement_of 6 8) = Num (log 2 10)"
    by (simp add: movement_of_6_8 scaled_10 log_def)
  have b: "max_scaled_of default_config = Num (log 2 100)"
    by (simp add: max_scaled_of_def default_config_def log_def)
  have c: "intensity_scaled_of default_config (scaled_of default_config (movement_of 6 8))
             = Num 5.5"
    by (simp only: movement_of_6_8 intensity_scaled_6_8)
  have d: "int_of_double (add_d (Num 5.5) (Num 0.5)) = Inr 6"
    by (simp add: trunc_def)
  from movement_of_6_8 a b c d level_6_8 [of s] show ?thesis
    by (intro conjI)
qed

subsection \<open>C7: determinism and side effects\<close>




subsection \<open>C8: playback failures\<close>

text \<open>
  C8. The claim is that a failure of the playback action is reported. \<open>play_sound_file\<close>
  drops the value of \<open>system\<close> and the command sends the player's messages to
  \<open>/dev/null\<close>: a playback of level 3 that fails leaves the same state as one that
  succeeds, with the command issued and nothing on the terminal.
\<close>

theorem playback_failure_unreported:
  "play_sound_file default_config Playback_failed 3 (initial_state False)
     = play_sound_file default_config Played 3 (initial_state False)
   \<and> terminal (play_sound_file default_config Playback_failed 3 (initial_state False)) = []
   \<and> commands (play_sound_file default_config Playback_failed 3 (initial_state False))
       = [Aplay ''moans'' 3]"
  by (simp add: play_sound_file_def Let_def debug_printf_def system_d_def initial_state_def
      default_config_def)

text \<open>
  C8, amended. For every level the player loop has taken, the outcome of the playback
  action is ignored: a failure leaves the state and the terminal as a success does, so it is
  not reported, and it is not fatal. Whatever the outcome, the thread goes on to mark itself
  idle, after which \<open>is_playing\<close> is false and the thread is back at the test of its
  loop.
\<close>

theorem playback_outcome_ignored:
  assumes "player s = At_play n"
  shows "sound_player_thread cfg Playback_failed s = sound_player_thread cfg Played s
       \<and> terminal (sound_player_thread cfg Playback_failed s)
           = terminal (sound_player_thread cfg Played s)
       \<and> player (sound_player_thread cfg oc s) = At_idle
       \<and> player (sound_player_thread cfg oc' (sound_player_thread cfg oc s)) = At_while
       \<and> \<not> is_playing (sound_player_thread cfg oc' (sound_player_thread cfg oc s))
       \<and> exited (sound_player_thread cfg oc' (sound_player_thread cfg oc s)) = exited s"
  using assms
  by (simp add: sound_player_thread_def play_sound_file_def Let_def system_d_def
      debug_printf_def printf_def)

text \<open>
  The theorem for a player that holds level 3.
\<close>

theorem playback_outcome_ignored_witness:
  "player ((initial_state False)\<lparr>is_playing := True, player := At_play 3\<rparr>) = At_play 3
   \<and> sound_player_thread default_config Playback_failed
        ((initial_state False)\<lparr>is_playing := True, player := At_play 3\<rparr>)
       = sound_player_thread default_config Played
        ((initial_state False)\<lparr>is_playing := True, player := At_play 3\<rparr>)
   \<and> player (sound_player_thread default_config Played
        (sound_player_thread default_config Playback_failed
          ((initial_state False)\<lparr>is_playing := True, player := At_play 3\<rparr>))) = At_while
   \<and> \<not> is_playing (sound_player_thread default_config Played
        (sound_player_thread default_config Playback_failed
          ((initial_state False)\<lparr>is_playing := True, player := At_play 3\<rparr>)))"
proof -
  have p: "player ((initial_state False)\<lparr>is_playing := True, player := At_play 3\<rparr>)
             = At_play 3"
    by simp
  from playback_outcome_ignored [OF p, of default_config Playback_failed Played] p
  show ?thesis by blast
qed

subsection \<open>C9: the pending slot\<close>

text \<open>
  C9. In every state the running program reaches, the pending slot holds 0 or a level
  between 1 and 10, and a level the player holds to play is between 1 and 10. Every call of
  the mapper returns a level between 1 and 10, whatever the cast of line 185 leaves, also
  for a movement that is not a number: the clamp of line 186 makes it so. Where the call
  has a defined result, that is the result. The level is the value of the slot after its
  deposit, so a deposited level is never 0, the value that stands for the empty slot; and
  every take leaves the slot at exactly 0 and hands the player the value the slot held.
\<close>

theorem pending_slot_invariant:
  "(reachable cfg s \<longrightarrow>
      (current_intensity s = 0 \<or> (1 \<le> current_intensity s \<and> current_intensity s \<le> 10))
      \<and> (\<forall>n. player s = At_play n \<longrightarrow> 1 \<le> n \<and> n \<le> 10))
   \<and> (calculate_intensity_on p cfg s dx dy = (v, s1) \<longrightarrow>
        1 \<le> v \<and> v \<le> 10 \<and> current_intensity (deposit v s1) = v)
   \<and> (calculate_intensity cfg s dx dy = Inr (v, s1) \<longrightarrow>
        calculate_intensity_on p cfg s dx dy = (v, s1))
   \<and> (running s \<and> motion_sample ev = Some (dx, dy)
        \<and> calculate_intensity_on p cfg s dx dy = (v, s1) \<longrightarrow>
        monitor_device_on p cfg (Event ev) s = deposit v s1)
   \<and> (player s = At_take \<and> running s \<longrightarrow>
        current_intensity (sound_player_thread cfg oc s) = 0
        \<and> player (sound_player_thread cfg oc s) = At_play (current_intensity s))"
proof -
  have "reachable cfg s \<longrightarrow>
      (current_intensity s = 0 \<or> (1 \<le> current_intensity s \<and> current_intensity s \<le> 10))
      \<and> (\<forall>n. player s = At_play n \<longrightarrow> 1 \<le> n \<and> n \<le> 10)"
    using reachable_channel_ok [of cfg s] by (simp add: channel_ok_def)
  moreover have "calculate_intensity_on p cfg s dx dy = (v, s1) \<longrightarrow>
        1 \<le> v \<and> v \<le> 10 \<and> current_intensity (deposit v s1) = v"
    using calculate_intensity_on_range [of p cfg s dx dy] by (auto simp: deposit_current)
  moreover have "calculate_intensity cfg s dx dy = Inr (v, s1) \<longrightarrow>
        calculate_intensity_on p cfg s dx dy = (v, s1)"
    by (simp add: calculate_intensity_on_agrees)
  moreover have "running s \<and> motion_sample ev = Some (dx, dy)
        \<and> calculate_intensity_on p cfg s dx dy = (v, s1) \<longrightarrow>
        monitor_device_on p cfg (Event ev) s = deposit v s1"
    by (simp add: monitor_device_on_def)
  moreover have "player s = At_take \<and> running s \<longrightarrow>
        current_intensity (sound_player_thread cfg oc s) = 0
        \<and> player (sound_player_thread cfg oc s) = At_play (current_intensity s)"
    by (simp add: sound_player_thread_def)
  ultimately show ?thesis by blast
qed

text \<open>
  The theorem at the state a run reaches by a first event of delta 46341, whose movement
  is not a number (level 1 is pending there); for the call on no motion, which has a
  defined result; and for the take of a pending level 1.
\<close>

theorem pending_slot_invariant_witness:
  "reachable default_config
     (monitor_device_on (- (2 ^ 31)) default_config
        (Event \<lparr>ev_type = EV_REL, ev_code = REL_X, ev_value = 46341\<rparr>) (initial_state False))
   \<and> 1 \<le> current_intensity
       (monitor_device_on (- (2 ^ 31)) default_config
          (Event \<lparr>ev_type = EV_REL, ev_code = REL_X, ev_value = 46341\<rparr>) (initial_state False))
   \<and> current_intensity
       (monitor_device_on (- (2 ^ 31)) default_config
          (Event \<lparr>ev_type = EV_REL, ev_code = REL_X, ev_value = 46341\<rparr>) (initial_state False))
       \<le> 10
   \<and> current_intensity
       (monitor_device_on (- (2 ^ 31)) default_config
          (Event \<lparr>ev_type = EV_REL, ev_code = REL_X, ev_value = 46341\<rparr>) (initial_state False))
       = 1
   \<and> calculate_intensity default_config (initial_state False) 46341 0
       = Inl Undefined_conversion
   \<and> calculate_intensity default_config (initial_state False) 0 0 = Inr (1, initial_state False)
   \<and> calculate_intensity_on (- (2 ^ 31)) default_config (initial_state False) 0 0
       = (1, initial_state False)
   \<and> current_intensity (deposit 1 (initial_state False)) = 1
   \<and> player ((initial_state False)\<lparr>current_intensity := 1, player := At_take\<rparr>) = At_take
   \<and> running ((initial_state False)\<lparr>current_intensity := 1, player := At_take\<rparr>)
   \<and> current_intensity (sound_player_thread default_config Played
        ((initial_state False)\<lparr>current_intensity := 1, player := At_take\<rparr>)) = 0
   \<and> player (sound_player_thread default_config Played
        ((initial_state False)\<lparr>current_intensity := 1, player := At_take\<rparr>)) = At_play 1"
proof -
  let ?e = "\<lparr>ev_type = EV_REL, ev_code = REL_X, ev_value = 0 :: 32 word\<rparr>"
  let ?n = "monitor_device_on (- (2 ^ 31)) default_config
        (Event \<lparr>ev_type = EV_REL, ev_code = REL_X, ev_value = 46341\<rparr>) (initial_state False)"
  let ?t = "(initial_state False)\<lparr>current_intensity := 1, player := At_take\<rparr>"
  have f: "calculate_intensity default_config (initial_state False) 46341 0
             = Inl Undefined_conversion"
    by (rule calculate_intensity_NaN) (rule movement_of_46341_0)
  have c: "calculate_intensity default_config (initial_state False) 0 0
             = Inr (1, initial_state False)"
    by (simp add: calculate_intensity_0_0 debug_printf_def initial_state_def)
  have t: "player ?t = At_take" "running ?t" "current_intensity ?t = 1"
    by (simp_all add: initial_state_def)
  note inv = pending_slot_invariant
    [of default_config "initial_state False" "- (2 ^ 31)" 0 0 1 "initial_state False" ?e Played]
  from inv c have on: "calculate_intensity_on (- (2 ^ 31)) default_config (initial_state False) 0 0
       = (1, initial_state False)"
    by blast
  with inv have dep: "current_intensity (deposit 1 (initial_state False)) = 1" by blast
  from pending_slot_invariant [of default_config ?t 0 0 0 1 ?t ?e Played] t
  have take: "current_intensity (sound_player_thread default_config Played ?t) = 0
      \<and> player (sound_player_thread default_config Played ?t) = At_play 1"
    by simp
  from pending_slot_invariant [of default_config ?n 0 0 0 1 ?n ?e Played]
    reachable_overflow_event
  have "current_intensity ?n = 0 \<or> (1 \<le> current_intensity ?n \<and> current_intensity ?n \<le> 10)"
    by blast
  with overflow_event have rng: "1 \<le> current_intensity ?n" "current_intensity ?n \<le> 10"
    by simp_all
  from reachable_overflow_event rng overflow_event f c on dep t(1,2) take show ?thesis
    by (intro conjI) blast+
qed

subsection \<open>C10: one axis at a time\<close>

text \<open>
  C10. The claim is that the mapper always gets one axis delta and a zero, so that the
  computed movement always equals the absolute value of that delta. The first half holds
  (\<open>motion_sample_one_axis\<close>), and so does the second while the square of the delta fits
  32 bits (\<open>movement_of_one_axis\<close>). For a \<open>REL_X\<close> event of value 65536 the product
  \<open>dx * dx\<close> wraps to 0: the computed movement is 0, not 65536, and the level is 1.
\<close>

theorem rel_x_65536:
  "motion_sample \<lparr>ev_type = EV_REL, ev_code = REL_X, ev_value = 65536\<rparr> = Some (65536, 0)
   \<and> sint (65536 :: 32 word) = 65536
   \<and> movement_of 65536 0 = Num 0
   \<and> level_of (calculate_intensity default_config (initial_state False) 65536 0) = Inr 1"
  by (simp add: motion_sample_def REL_X_def REL_Y_def movement_of_65536_0
      calculate_intensity_def Let_def default_config_def level_of_def)

end
